theory Spec2Isabelle
  imports Main "HOL-Library.Sublist"
begin

section \<open>Data model of \<open>src/components/TodoApp.tsx\<close>\<close>

text \<open>
  The component keeps six pieces of state (\<open>useState\<close>) and a handful of event
  handlers that replace them. Each handler is embedded as a function from the state of
  the render it was created in to the state after the handler's \<open>set...\<close> calls,
  paired with the list of \<open>toast(...)\<close> calls it made, in order.

  The string union \<open>'high' | 'medium' | 'low'\<close> is a datatype, and the filter's union
  \<open>'all' | 'high' | 'medium' | 'low'\<close> is \<open>All_f\<close> or \<open>Only\<close> one of the priorities.
  A \<open>number\<close> holding \<open>Date.now()\<close> is an \<open>int\<close>, and a \<open>Date\<close> is the
  \<open>int\<close> of its time value. The field names \<open>id\<close>, \<open>text\<close> and \<open>filter\<close>
  and the filter value \<open>all\<close> get the suffix \<open>_f\<close>, since HOL uses the plain names.
\<close>

datatype priority = High | Medium | Low

datatype filter_value = All_f | Only priority

record Todo =
  id_f :: int
  text_f :: string
  priority :: priority
  completed :: bool
  createdAt :: int

datatype variant = Default | Destructive

record toast =
  title :: string
  description :: string
  variant :: variant

record app_state =
  todos :: "Todo list"
  newTodo :: string
  newPriority :: priority
  editingId :: "int option"
  editText :: string
  filter_f :: filter_value

text \<open>The initial values given to the six \<open>useState\<close> calls.\<close>

definition init :: app_state where
  "init = \<lparr>todos = [], newTodo = [], newPriority = Medium,
           editingId = None, editText = [], filter_f = All_f\<rparr>"

subsection \<open>\<open>String.prototype.trim\<close>\<close>

text \<open>
  \<open>trim\<close> removes white space and line terminators from both ends. A \<open>string\<close> here
  is a list of code units below 256; in that range the characters that JavaScript strips
  are TAB, LF, VT, FF, CR, SPACE and NO-BREAK SPACE.
\<close>

definition is_ws :: "char \<Rightarrow> bool" where
  "is_ws c \<longleftrightarrow> c \<in> set [CHR 0x09, CHR 0x0A, CHR 0x0B, CHR 0x0C, CHR 0x0D, CHR 0x20, CHR 0xA0]"

definition trim :: "string \<Rightarrow> string" where
  "trim s = rev (dropWhile is_ws (rev (dropWhile is_ws s)))"

section \<open>The event handlers\<close>

text \<open>
  \<open>addTodo\<close> reads the clock twice, for \<open>Date.now()\<close> and for \<open>new Date()\<close>; the
  two readings are the parameters \<open>now\<close> and \<open>date\<close>. \<open>!newTodo.trim()\<close> holds
  exactly when the trimmed string is empty. A \<open>toast\<close> call without a \<open>variant\<close> key
  is shown with the default variant.
\<close>

definition addTodo :: "int \<Rightarrow> int \<Rightarrow> app_state \<Rightarrow> app_state \<times> toast list" where
  "addTodo now date s =
     (if trim (newTodo s) = [] then
        (s, [\<lparr>title = ''Empty Task'',
              description = ''Please enter a task before adding.'',
              variant = Destructive\<rparr>])
      else
        let todo = \<lparr>id_f = now, text_f = trim (newTodo s), priority = newPriority s,
                    completed = False, createdAt = date\<rparr>
        in (s\<lparr>todos := todo # todos s, newTodo := [], newPriority := Medium\<rparr>,
            [\<lparr>title = ''Task Added'',
              description = ''Your task has been added successfully!'',
              variant = Default\<rparr>]))"

definition deleteTodo :: "int \<Rightarrow> app_state \<Rightarrow> app_state \<times> toast list" where
  "deleteTodo tid s =
     (s\<lparr>todos := filter (\<lambda>todo. id_f todo \<noteq> tid) (todos s)\<rparr>,
      [\<lparr>title = ''Task Deleted'',
        description = ''Task removed successfully.'',
        variant = Default\<rparr>])"

definition startEdit :: "Todo \<Rightarrow> app_state \<Rightarrow> app_state \<times> toast list" where
  "startEdit todo s = (s\<lparr>editingId := Some (id_f todo), editText := text_f todo\<rparr>, [])"

text \<open>
  \<open>todo.id === editingId\<close> compares a number with a \<open>number | null\<close>: it is false
  for \<open>null\<close>.
\<close>

definition saveEdit :: "app_state \<Rightarrow> app_state \<times> toast list" where
  "saveEdit s =
     (if trim (editText s) = [] then
        (s, [\<lparr>title = ''Empty Task'',
              description = ''Task cannot be empty.'',
              variant = Destructive\<rparr>])
      else
        (s\<lparr>todos := map (\<lambda>todo. if Some (id_f todo) = editingId s
                                then todo\<lparr>text_f := trim (editText s)\<rparr>
                                else todo) (todos s),
           editingId := None, editText := []\<rparr>,
         [\<lparr>title = ''Task Updated'',
           description = ''Your task has been updated successfully!'',
           variant = Default\<rparr>]))"

definition toggleComplete :: "int \<Rightarrow> app_state \<Rightarrow> app_state \<times> toast list" where
  "toggleComplete tid s =
     (s\<lparr>todos := map (\<lambda>todo. if id_f todo = tid
                              then todo\<lparr>completed := \<not> completed todo\<rparr>
                              else todo) (todos s)\<rparr>,
      [])"

definition filteredTodos :: "app_state \<Rightarrow> Todo list" where
  "filteredTodos s =
     filter (\<lambda>todo. if filter_f s = All_f then True else Only (priority todo) = filter_f s)
       (todos s)"

section \<open>Events of the rendered component\<close>

text \<open>
  The markup wires the handlers to the page: the draft input and the two selectors call
  the state setters with the new value, the "Add Task" button and the Enter key in the
  draft input call \<open>addTodo\<close>, the trash button calls \<open>deleteTodo\<close>, the pencil
  button calls \<open>startEdit\<close>, the Save button, the Enter key and the loss of focus of
  the edit input call \<open>saveEdit\<close>, the Escape key in the edit input clears
  \<open>editingId\<close> and \<open>editText\<close>, and the checkbox calls \<open>toggleComplete\<close>.
  \<open>ClickAdd\<close> carries the two clock readings of that call.
\<close>

datatype event =
    ChangeNewTodo string
  | ChangeNewPriority priority
  | ClickAdd int int
  | ClickDelete int
  | ClickEdit Todo
  | ChangeEditText string
  | SubmitEdit
  | PressEscape
  | ClickCheckbox int
  | ChangeFilter filter_value

fun step :: "event \<Rightarrow> app_state \<Rightarrow> app_state" where
  "step (ChangeNewTodo v) s = s\<lparr>newTodo := v\<rparr>"
| "step (ChangeNewPriority v) s = s\<lparr>newPriority := v\<rparr>"
| "step (ClickAdd now date) s = fst (addTodo now date s)"
| "step (ClickDelete tid) s = fst (deleteTodo tid s)"
| "step (ClickEdit todo) s = fst (startEdit todo s)"
| "step (ChangeEditText v) s = s\<lparr>editText := v\<rparr>"
| "step SubmitEdit s = fst (saveEdit s)"
| "step PressEscape s = s\<lparr>editingId := None, editText := []\<rparr>"
| "step (ClickCheckbox tid) s = fst (toggleComplete tid s)"
| "step (ChangeFilter v) s = s\<lparr>filter_f := v\<rparr>"

fun run :: "event list \<Rightarrow> app_state \<Rightarrow> app_state" where
  "run [] s = s"
| "run (e # es) s = run es (step e s)"

section \<open>Sample data\<close>

text \<open>Two tasks and a state holding them, most recent first, for the concrete instances below.\<close>

definition buy_milk :: Todo where
  "buy_milk = \<lparr>id_f = 1, text_f = ''Buy milk'', priority = High,
               completed = False, createdAt = 1\<rparr>"

definition call_bob :: Todo where
  "call_bob = \<lparr>id_f = 2, text_f = ''Call Bob'', priority = Low,
               completed = False, createdAt = 2\<rparr>"

definition two_tasks :: app_state where
  "two_tasks = \<lparr>todos = [call_bob, buy_milk], newTodo = [], newPriority = Medium,
                editingId = None, editText = [], filter_f = All_f\<rparr>"

section \<open>Adding a task\<close>

text \<open>
  C1. When the trimmed draft is not empty, \<open>addTodo\<close> makes the list one longer by
  putting the new task in front of the old list, which is kept as it was; the new task
  has the trimmed draft as text, the selected priority and \<open>completed = false\<close>; the
  draft becomes the empty string and the selected priority becomes medium.
\<close>

theorem addTodo_prepends:
  "trim (newTodo s) \<noteq> [] \<Longrightarrow>
     length (todos (fst (addTodo now date s))) = length (todos s) + 1
   \<and> todos (fst (addTodo now date s)) =
       \<lparr>id_f = now, text_f = trim (newTodo s), priority = newPriority s,
        completed = False, createdAt = date\<rparr> # todos s
   \<and> newTodo (fst (addTodo now date s)) = []
   \<and> newPriority (fst (addTodo now date s)) = Medium"
  by (simp add: addTodo_def Let_def)

theorem addTodo_prepends_witness:
  "trim (newTodo (init\<lparr>newTodo := ''  Buy milk '', newPriority := High\<rparr>)) \<noteq> []
   \<and> todos (fst (addTodo 1700000000000 1700000000001
                    (init\<lparr>newTodo := ''  Buy milk '', newPriority := High\<rparr>))) =
       [\<lparr>id_f = 1700000000000, text_f = ''Buy milk'', priority = High,
         completed = False, createdAt = 1700000000001\<rparr>]"
  using addTodo_prepends [of "init\<lparr>newTodo := ''  Buy milk '', newPriority := High\<rparr>"
                             1700000000000 1700000000001]
  by (simp add: trim_def is_ws_def init_def)

text \<open>
  C2. When the trimmed draft is empty, \<open>addTodo\<close> only shows the destructive
  "Empty Task" notice: the state it returns is the state it was given, so the task list,
  the draft, the selected priority, the edit state and the filter are all as before.
\<close>

theorem addTodo_empty_rejected:
  "trim (newTodo s) = [] \<Longrightarrow>
     fst (addTodo now date s) = s
   \<and> snd (addTodo now date s) =
       [\<lparr>title = ''Empty Task'', description = ''Please enter a task before adding.'',
         variant = Destructive\<rparr>]"
  by (simp add: addTodo_def)

theorem addTodo_empty_rejected_witness:
  "trim (newTodo (init\<lparr>newTodo := ''   ''\<rparr>)) = []
   \<and> fst (addTodo 7 8 (init\<lparr>newTodo := ''   ''\<rparr>)) = init\<lparr>newTodo := ''   ''\<rparr>
   \<and> map variant (snd (addTodo 7 8 (init\<lparr>newTodo := ''   ''\<rparr>))) = [Destructive]"
  using addTodo_empty_rejected [of "init\<lparr>newTodo := ''   ''\<rparr>" 7 8]
  by (simp add: trim_def is_ws_def init_def)

section \<open>Saving an edit\<close>

text \<open>
  C3. When a task id \<open>e\<close> is being edited and the trimmed edit draft is not empty,
  \<open>saveEdit\<close> keeps the length and the order of the list, gives the trimmed draft as
  text to the tasks whose id is \<open>e\<close> and leaves their id, priority, completed flag and
  creation time alone, leaves every other task as it was, and ends edit mode: no id is
  being edited and the edit draft is the empty string.
\<close>

theorem saveEdit_replaces_text:
  "editingId s = Some e \<Longrightarrow> trim (editText s) \<noteq> [] \<Longrightarrow>
     length (todos (fst (saveEdit s))) = length (todos s)
   \<and> (\<forall>i < length (todos s).
         (id_f (todos s ! i) = e \<longrightarrow>
            todos (fst (saveEdit s)) ! i = (todos s ! i)\<lparr>text_f := trim (editText s)\<rparr>
          \<and> text_f (todos (fst (saveEdit s)) ! i) = trim (editText s)
          \<and> id_f (todos (fst (saveEdit s)) ! i) = id_f (todos s ! i)
          \<and> priority (todos (fst (saveEdit s)) ! i) = priority (todos s ! i)
          \<and> completed (todos (fst (saveEdit s)) ! i) = completed (todos s ! i)
          \<and> createdAt (todos (fst (saveEdit s)) ! i) = createdAt (todos s ! i))
       \<and> (id_f (todos s ! i) \<noteq> e \<longrightarrow> todos (fst (saveEdit s)) ! i = todos s ! i))
   \<and> editingId (fst (saveEdit s)) = None
   \<and> editText (fst (saveEdit s)) = []"
  by (simp add: saveEdit_def)

theorem saveEdit_replaces_text_witness:
  "editingId (two_tasks\<lparr>editingId := Some 1, editText := '' Buy oat milk''\<rparr>) = Some 1
   \<and> trim (editText (two_tasks\<lparr>editingId := Some 1, editText := '' Buy oat milk''\<rparr>)) \<noteq> []
   \<and> fst (saveEdit (two_tasks\<lparr>editingId := Some 1, editText := '' Buy oat milk''\<rparr>)) =
       two_tasks\<lparr>todos := [call_bob, buy_milk\<lparr>text_f := ''Buy oat milk''\<rparr>]\<rparr>"
  using saveEdit_replaces_text
          [of "two_tasks\<lparr>editingId := Some 1, editText := '' Buy oat milk''\<rparr>" 1]
  by (simp add: saveEdit_def trim_def is_ws_def two_tasks_def buy_milk_def call_bob_def)

text \<open>
  C4. When a task is being edited and the trimmed edit draft is empty, \<open>saveEdit\<close>
  only shows the destructive "Empty Task" notice: the same id is still being edited, the
  edit draft is the one that was rejected, and the task list is as before.
\<close>

theorem saveEdit_empty_rejected:
  "editingId s = Some e \<Longrightarrow> trim (editText s) = [] \<Longrightarrow>
     fst (saveEdit s) = s
   \<and> editingId (fst (saveEdit s)) = Some e
   \<and> editText (fst (saveEdit s)) = editText s
   \<and> todos (fst (saveEdit s)) = todos s
   \<and> snd (saveEdit s) =
       [\<lparr>title = ''Empty Task'', description = ''Task cannot be empty.'',
         variant = Destructive\<rparr>]"
  by (simp add: saveEdit_def)

theorem saveEdit_empty_rejected_witness:
  "editingId (two_tasks\<lparr>editingId := Some 1, editText := '' ''\<rparr>) = Some 1
   \<and> trim (editText (two_tasks\<lparr>editingId := Some 1, editText := '' ''\<rparr>)) = []
   \<and> fst (saveEdit (two_tasks\<lparr>editingId := Some 1, editText := '' ''\<rparr>)) =
       two_tasks\<lparr>editingId := Some 1, editText := '' ''\<rparr>
   \<and> map variant (snd (saveEdit (two_tasks\<lparr>editingId := Some 1, editText := '' ''\<rparr>))) =
       [Destructive]"
  using saveEdit_empty_rejected [of "two_tasks\<lparr>editingId := Some 1, editText := '' ''\<rparr>" 1]
  by (simp add: trim_def is_ws_def two_tasks_def)

text \<open>
  C10. When no task is being edited and the trimmed edit draft is not empty,
  \<open>saveEdit\<close> leaves the task list as it was, still sets the edit draft to the empty
  string, and shows the "Task Updated" notice.
\<close>

theorem saveEdit_not_editing:
  "editingId s = None \<Longrightarrow> trim (editText s) \<noteq> [] \<Longrightarrow>
     todos (fst (saveEdit s)) = todos s
   \<and> editText (fst (saveEdit s)) = []
   \<and> editingId (fst (saveEdit s)) = None
   \<and> snd (saveEdit s) =
       [\<lparr>title = ''Task Updated'',
         description = ''Your task has been updated successfully!'',
         variant = Default\<rparr>]"
  by (simp add: saveEdit_def)

theorem saveEdit_not_editing_witness:
  "editingId (two_tasks\<lparr>editText := ''Buy oat milk''\<rparr>) = None
   \<and> trim (editText (two_tasks\<lparr>editText := ''Buy oat milk''\<rparr>)) \<noteq> []
   \<and> fst (saveEdit (two_tasks\<lparr>editText := ''Buy oat milk''\<rparr>)) = two_tasks
   \<and> map title (snd (saveEdit (two_tasks\<lparr>editText := ''Buy oat milk''\<rparr>))) =
       [''Task Updated'']"
  using saveEdit_not_editing [of "two_tasks\<lparr>editText := ''Buy oat milk''\<rparr>"]
  by (simp add: saveEdit_def trim_def is_ws_def two_tasks_def buy_milk_def call_bob_def)

section \<open>Deleting a task\<close>

lemma filter_single_split:
  "length (filter P xs) = 1 \<Longrightarrow>
     \<exists>ys x zs. xs = ys @ x # zs \<and> P x \<and> filter (\<lambda>x. \<not> P x) xs = ys @ zs
       \<and> (\<forall>y \<in> set (ys @ zs). \<not> P y)"
proof (induction xs)
  case Nil
  then show ?case by simp
next
  case (Cons a xs)
  show ?case
  proof (cases "P a")
    case True
    with Cons.prems have "filter P xs = []" by simp
    then have none: "\<forall>y \<in> set xs. \<not> P y" by (simp add: filter_empty_conv)
    then have "filter (\<lambda>x. \<not> P x) (a # xs) = [] @ xs" using True by simp
    with True none show ?thesis by (metis append_Nil)
  next
    case False
    with Cons.prems have "length (filter P xs) = 1" by simp
    from Cons.IH [OF this] obtain ys x zs where
      h: "xs = ys @ x # zs" "P x" "filter (\<lambda>x. \<not> P x) xs = ys @ zs"
         "\<forall>y \<in> set (ys @ zs). \<not> P y" by blast
    have "a # xs = (a # ys) @ x # zs" using h(1) by simp
    moreover have "filter (\<lambda>x. \<not> P x) (a # xs) = (a # ys) @ zs" using h(3) False by simp
    moreover have "\<forall>y \<in> set ((a # ys) @ zs). \<not> P y" using h(4) False by simp
    ultimately show ?thesis using h(2) by blast
  qed
qed

text \<open>
  C5. When exactly one task of the list has the given id, \<open>deleteTodo\<close> makes the list
  one shorter: the list was \<open>ys @ x # zs\<close> with \<open>x\<close> the task of that id, and it
  becomes \<open>ys @ zs\<close>, so the other tasks keep their order and none of them has the id.
  When no task has the id, the state is left as it was. In both cases the only notice is
  "Task Deleted", of the default variant, so no error is signalled.
\<close>

theorem deleteTodo_removes:
  "(length (filter (\<lambda>t. id_f t = tid) (todos s)) = 1 \<longrightarrow>
      length (todos (fst (deleteTodo tid s))) + 1 = length (todos s)
    \<and> (\<exists>ys x zs. todos s = ys @ x # zs \<and> id_f x = tid
          \<and> todos (fst (deleteTodo tid s)) = ys @ zs
          \<and> (\<forall>y \<in> set (ys @ zs). id_f y \<noteq> tid)))
   \<and> (tid \<notin> set (map id_f (todos s)) \<longrightarrow> fst (deleteTodo tid s) = s)
   \<and> snd (deleteTodo tid s) =
       [\<lparr>title = ''Task Deleted'', description = ''Task removed successfully.'',
         variant = Default\<rparr>]"
proof (intro conjI impI)
  assume one: "length (filter (\<lambda>t. id_f t = tid) (todos s)) = 1"
  from filter_single_split [OF one] obtain ys x zs where
    h: "todos s = ys @ x # zs" "id_f x = tid"
       "filter (\<lambda>t. id_f t \<noteq> tid) (todos s) = ys @ zs"
       "\<forall>y \<in> set (ys @ zs). id_f y \<noteq> tid" by blast
  have del: "todos (fst (deleteTodo tid s)) = ys @ zs"
    using h(3) by (simp add: deleteTodo_def)
  show "length (todos (fst (deleteTodo tid s))) + 1 = length (todos s)"
    using del h(1) by simp
  show "\<exists>ys x zs. todos s = ys @ x # zs \<and> id_f x = tid
          \<and> todos (fst (deleteTodo tid s)) = ys @ zs
          \<and> (\<forall>y \<in> set (ys @ zs). id_f y \<noteq> tid)"
    using h(1,2,4) del by blast
next
  assume "tid \<notin> set (map id_f (todos s))"
  then have "\<forall>t \<in> set (todos s). id_f t \<noteq> tid" by auto
  then show "fst (deleteTodo tid s) = s" by (simp add: deleteTodo_def)
next
  show "snd (deleteTodo tid s) =
       [\<lparr>title = ''Task Deleted'', description = ''Task removed successfully.'',
         variant = Default\<rparr>]"
    by (simp add: deleteTodo_def)
qed

theorem deleteTodo_removes_witness:
  "length (filter (\<lambda>t. id_f t = 1) (todos two_tasks)) = 1
   \<and> fst (deleteTodo 1 two_tasks) = two_tasks\<lparr>todos := [call_bob]\<rparr>
   \<and> 9 \<notin> set (map id_f (todos two_tasks))
   \<and> fst (deleteTodo 9 two_tasks) = two_tasks
   \<and> map variant (snd (deleteTodo 9 two_tasks)) = [Default]"
  using deleteTodo_removes [of 1 two_tasks] deleteTodo_removes [of 9 two_tasks]
  by (simp add: deleteTodo_def two_tasks_def buy_milk_def call_bob_def)

section \<open>Completing a task\<close>

lemma toggle_twice_map:
  "map ((\<lambda>todo. if id_f todo = tid then todo\<lparr>completed := \<not> completed todo\<rparr> else todo) \<circ>
        (\<lambda>todo. if id_f todo = tid then todo\<lparr>completed := \<not> completed todo\<rparr> else todo)) xs
   = xs"
  by (induction xs) auto

text \<open>
  C6. Two calls of \<open>toggleComplete\<close> with the same id, one after the other, give back
  the state they started from, for every id: each task has its first completed flag
  again and nothing else has changed. Neither call shows a notice.
\<close>

theorem toggleComplete_involution:
  "fst (toggleComplete tid (fst (toggleComplete tid s))) = s
   \<and> snd (toggleComplete tid (fst (toggleComplete tid s))) = []
   \<and> snd (toggleComplete tid s) = []"
  by (simp add: toggleComplete_def toggle_twice_map)

theorem toggleComplete_involution_witness:
  "fst (toggleComplete 1 two_tasks) =
     two_tasks\<lparr>todos := [call_bob, buy_milk\<lparr>completed := True\<rparr>]\<rparr>
   \<and> fst (toggleComplete 1 (fst (toggleComplete 1 two_tasks))) = two_tasks"
  using toggleComplete_involution [of 1 two_tasks]
  by (simp add: toggleComplete_def two_tasks_def buy_milk_def call_bob_def)

text \<open>
  C9. When no task of the list has the given id, \<open>toggleComplete\<close> returns the state
  it was given, so every task and the order of the list are the same, and it shows no
  notice.
\<close>

theorem toggleComplete_absent:
  "tid \<notin> set (map id_f (todos s)) \<Longrightarrow> toggleComplete tid s = (s, [])"
proof -
  assume "tid \<notin> set (map id_f (todos s))"
  then have a: "\<forall>t \<in> set (todos s). id_f t \<noteq> tid" by auto
  then have "map (\<lambda>todo. if id_f todo = tid then todo\<lparr>completed := \<not> completed todo\<rparr> else todo)
               (todos s) = todos s"
    by (simp add: map_idI)
  then show ?thesis by (simp add: toggleComplete_def)
qed

theorem toggleComplete_absent_witness:
  "9 \<notin> set (map id_f (todos two_tasks)) \<and> toggleComplete 9 two_tasks = (two_tasks, [])"
  using toggleComplete_absent [where s = two_tasks and tid = 9]
  by (simp add: two_tasks_def buy_milk_def call_bob_def)

section \<open>The visible tasks\<close>

lemma subseq_into_filter:
  "subseq ys xs \<Longrightarrow> \<forall>y \<in> set ys. P y \<Longrightarrow> subseq ys (filter P xs)"
proof -
  assume a: "subseq ys xs" and b: "\<forall>y \<in> set ys. P y"
  from a have "subseq (filter P ys) (filter P xs)" by simp
  moreover from b have "filter P ys = ys" by simp
  ultimately show ?thesis by simp
qed

text \<open>
  C7. With the filter set to a priority \<open>p\<close>, \<open>filteredTodos\<close> is the list of the
  tasks of priority \<open>p\<close> in the order of the task list: every task in it has priority
  \<open>p\<close>, and every subsequence of the task list made of tasks of priority \<open>p\<close> is a
  subsequence of it. With the filter set to all, it is the task list. It is always a
  subsequence of the task list; it is computed from the state and returns a list only, so
  the task list itself is not changed.
\<close>

theorem filteredTodos_subsequence:
  "(filter_f s = Only p \<longrightarrow>
      filteredTodos s = filter (\<lambda>t. priority t = p) (todos s)
    \<and> (\<forall>t \<in> set (filteredTodos s). priority t = p)
    \<and> (\<forall>ys. subseq ys (todos s) \<and> (\<forall>t \<in> set ys. priority t = p)
           \<longrightarrow> subseq ys (filteredTodos s)))
   \<and> (filter_f s = All_f \<longrightarrow> filteredTodos s = todos s)
   \<and> subseq (filteredTodos s) (todos s)"
proof (intro conjI impI)
  assume f: "filter_f s = Only p"
  then show eq: "filteredTodos s = filter (\<lambda>t. priority t = p) (todos s)"
    by (simp add: filteredTodos_def)
  show "\<forall>t \<in> set (filteredTodos s). priority t = p" using eq by simp
  show "\<forall>ys. subseq ys (todos s) \<and> (\<forall>t \<in> set ys. priority t = p)
           \<longrightarrow> subseq ys (filteredTodos s)"
    using eq by (simp add: subseq_into_filter)
next
  assume "filter_f s = All_f"
  then show "filteredTodos s = todos s" by (simp add: filteredTodos_def)
next
  show "subseq (filteredTodos s) (todos s)" by (simp add: filteredTodos_def)
qed

theorem filteredTodos_subsequence_witness:
  "filter_f (two_tasks\<lparr>filter_f := Only High\<rparr>) = Only High
   \<and> filteredTodos (two_tasks\<lparr>filter_f := Only High\<rparr>) = [buy_milk]
   \<and> subseq [buy_milk] (todos (two_tasks\<lparr>filter_f := Only High\<rparr>))
   \<and> priority buy_milk = High
   \<and> subseq [buy_milk] (filteredTodos (two_tasks\<lparr>filter_f := Only High\<rparr>))
   \<and> filter_f two_tasks = All_f
   \<and> filteredTodos two_tasks = [call_bob, buy_milk]"
  using filteredTodos_subsequence [of "two_tasks\<lparr>filter_f := Only High\<rparr>" High]
        filteredTodos_subsequence [of two_tasks High]
  by (simp add: filteredTodos_def two_tasks_def buy_milk_def call_bob_def)

section \<open>Ids of the tasks\<close>

lemma map_keeps_ids:
  "\<forall>x. id_f (g x) = id_f x \<Longrightarrow> map id_f (map g xs) = map id_f xs"
  by (induction xs) auto

text \<open>
  Every event keeps the ids of the list pairwise distinct, except an \<open>addTodo\<close> whose
  clock reading is already the id of a task in the list.
\<close>

lemma step_keeps_ids_distinct:
  "distinct (map id_f (todos s)) \<Longrightarrow>
   (\<forall>now date. e = ClickAdd now date \<longrightarrow> (\<forall>t \<in> set (todos s). id_f t \<noteq> now)) \<Longrightarrow>
   distinct (map id_f (todos (step e s)))"
proof (cases e)
  case (ClickAdd now date)
  assume "distinct (map id_f (todos s))"
    and "\<forall>now date. e = ClickAdd now date \<longrightarrow> (\<forall>t \<in> set (todos s). id_f t \<noteq> now)"
  then show ?thesis using ClickAdd by (auto simp: addTodo_def Let_def)
next
  case (ClickDelete tid)
  assume "distinct (map id_f (todos s))"
  then show ?thesis using ClickDelete by (simp add: deleteTodo_def distinct_map_filter)
next
  case SubmitEdit
  assume d: "distinct (map id_f (todos s))"
  have "map id_f (map (\<lambda>todo. if Some (id_f todo) = editingId s
                                then todo\<lparr>text_f := trim (editText s)\<rparr>
                                else todo) (todos s)) = map id_f (todos s)"
    by (rule map_keeps_ids) simp
  then show ?thesis using d SubmitEdit by (simp add: saveEdit_def del: map_map)
next
  case (ClickCheckbox tid)
  assume d: "distinct (map id_f (todos s))"
  have "map id_f (map (\<lambda>todo. if id_f todo = tid
                              then todo\<lparr>completed := \<not> completed todo\<rparr>
                              else todo) (todos s)) = map id_f (todos s)"
    by (rule map_keeps_ids) simp
  then show ?thesis using d ClickCheckbox by (simp add: toggleComplete_def del: map_map)
qed (simp_all add: startEdit_def)

text \<open>
  C8. The ids of the tasks are meant to be pairwise distinct in every state reached from
  the initial one. \<open>addTodo\<close> takes the id from \<open>Date.now()\<close>, so two tasks added
  while the clock shows the same millisecond get the same id: after typing \<open>a\<close>,
  adding, typing \<open>b\<close> and adding again at clock reading 5, the list holds two tasks
  with id 5.
\<close>

theorem same_tick_ids_collide:
  "todos (run [ChangeNewTodo ''a'', ClickAdd 5 5, ChangeNewTodo ''b'', ClickAdd 5 5] init) =
     [\<lparr>id_f = 5, text_f = ''b'', priority = Medium, completed = False, createdAt = 5\<rparr>,
      \<lparr>id_f = 5, text_f = ''a'', priority = Medium, completed = False, createdAt = 5\<rparr>]
   \<and> \<not> distinct (map id_f
         (todos (run [ChangeNewTodo ''a'', ClickAdd 5 5, ChangeNewTodo ''b'', ClickAdd 5 5] init)))"
  by (simp add: addTodo_def trim_def is_ws_def init_def)

end
